theory Spec2Isabelle
  imports Main
begin

section \<open>The floating IP resource of the Oxide Terraform provider\<close>

text \<open>
  A shallow embedding of \<^verbatim>\<open>internal/provider/resource_floating_ip.go\<close>: the state model
  \<^verbatim>\<open>floatingIpResourceModel\<close>, the schema, and the four lifecycle operations
  \<^verbatim>\<open>Create\<close>, \<^verbatim>\<open>Read\<close>, \<^verbatim>\<open>Update\<close> and \<^verbatim>\<open>Delete\<close>.

  The operations are Go methods that mutate a response through a pointer and talk to the
  remote platform through \<^verbatim>\<open>r.client\<close>. Here each operation takes the response and the
  remote state and returns both updated. Every call made on the client is also appended to a
  log, so that "no remote call" and "the call was issued with this reference" are statements
  about the returned log. \<^verbatim>\<open>tflog.Trace\<close> only writes a log line and is left out.
\<close>

subsection \<open>Values of the plugin framework\<close>

text \<open>\<^verbatim>\<open>types.String\<close>: a string attribute is null, unknown or a known value.\<close>

datatype tf_String = StringNull | StringUnknown | StringValue string

text \<open>\<^verbatim>\<open>ValueString()\<close> returns the empty string for a null or unknown attribute.\<close>

fun ValueString :: "tf_String \<Rightarrow> string" where
  "ValueString (StringValue s) = s"
| "ValueString StringNull = []"
| "ValueString StringUnknown = []"

text \<open>A diagnostic has a severity, a summary and a detail string.\<close>

datatype Diagnostic = ErrorDiagnostic string string | WarningDiagnostic string string

fun Summary :: "Diagnostic \<Rightarrow> string" where
  "Summary (ErrorDiagnostic s d) = s"
| "Summary (WarningDiagnostic s d) = s"

fun HasError :: "Diagnostic list \<Rightarrow> bool" where
  "HasError [] = False"
| "HasError (ErrorDiagnostic s d # ds) = True"
| "HasError (WarningDiagnostic s d # ds) = HasError ds"

text \<open>\<^verbatim>\<open>Diagnostics.Append\<close> skips a diagnostic that the list already contains.\<close>

fun Append :: "Diagnostic list \<Rightarrow> Diagnostic list \<Rightarrow> Diagnostic list" where
  "Append ds [] = ds"
| "Append ds (d # rest) = Append (if d \<in> set ds then ds else ds @ [d]) rest"

definition AddError :: "Diagnostic list \<Rightarrow> string \<Rightarrow> string \<Rightarrow> Diagnostic list" where
  "AddError ds summary detail = Append ds [ErrorDiagnostic summary detail]"

text \<open>
  \<^verbatim>\<open>time.Duration\<close> counts nanoseconds. A context is the ambient one or one derived from it
  by \<^verbatim>\<open>context.WithTimeout\<close>; the derivation is kept as a term, so that the deadline an
  operation puts on its remote call can be read off the logged call.
\<close>

type_synonym Duration = int

datatype Context = Background | WithTimeout Context Duration

subsection \<open>The timeout resolver\<close>

text \<open>
  \<^verbatim>\<open>timeouts.Value\<close> wraps an object whose attributes are the configured duration strings,
  looked up by the operation's name; a null object has no attributes.
\<close>

type_synonym timeouts_Value = "(string \<times> tf_String) list"

text \<open>
  Modelled from the spec: the methods \<^verbatim>\<open>Create\<close>, \<^verbatim>\<open>Read\<close>, \<^verbatim>\<open>Update\<close> and \<^verbatim>\<open>Delete\<close> of
  \<^verbatim>\<open>timeouts.Value\<close> belong to the timeouts package, which is not part of the sources.
  Section 4.3: the input is an optional per-operation duration and a default used when it is
  absent; the output is one resolved duration; resolution fails, with a diagnostic, only when
  the configured value is structurally invalid. The parser of duration strings
  (\<^verbatim>\<open>time.ParseDuration\<close>) is a parameter.
\<close>

definition getTimeout ::
  "(string \<Rightarrow> string + Duration) \<Rightarrow> timeouts_Value \<Rightarrow> string \<Rightarrow> Duration
    \<Rightarrow> Duration \<times> Diagnostic list" where
  "getTimeout parse t timeoutName defaultTimeout =
     (case map_of t timeoutName of
        None \<Rightarrow> (defaultTimeout, [])
      | Some StringNull \<Rightarrow> (defaultTimeout, [])
      | Some StringUnknown \<Rightarrow> (defaultTimeout, [])
      | Some (StringValue s) \<Rightarrow>
          (case parse s of
             Inl err \<Rightarrow>
               (defaultTimeout,
                [ErrorDiagnostic ''Timeout Cannot Be Parsed''
                   (''timeout for '' @ timeoutName @ '' cannot be parsed, '' @ err)])
           | Inr d \<Rightarrow> (d, [])))"

definition Timeouts_Create ::
  "(string \<Rightarrow> string + Duration) \<Rightarrow> timeouts_Value \<Rightarrow> Duration \<Rightarrow> Duration \<times> Diagnostic list" where
  "Timeouts_Create parse t d = getTimeout parse t ''create'' d"

definition Timeouts_Read ::
  "(string \<Rightarrow> string + Duration) \<Rightarrow> timeouts_Value \<Rightarrow> Duration \<Rightarrow> Duration \<times> Diagnostic list" where
  "Timeouts_Read parse t d = getTimeout parse t ''read'' d"

definition Timeouts_Update ::
  "(string \<Rightarrow> string + Duration) \<Rightarrow> timeouts_Value \<Rightarrow> Duration \<Rightarrow> Duration \<times> Diagnostic list" where
  "Timeouts_Update parse t d = getTimeout parse t ''update'' d"

definition Timeouts_Delete ::
  "(string \<Rightarrow> string + Duration) \<Rightarrow> timeouts_Value \<Rightarrow> Duration \<Rightarrow> Duration \<times> Diagnostic list" where
  "Timeouts_Delete parse t d = getTimeout parse t ''delete'' d"

subsection \<open>The state model and the schema\<close>

text \<open>The struct \<^verbatim>\<open>floatingIpResourceModel\<close>, field by field.\<close>

record floatingIpResourceModel =
  ID :: tf_String
  Name :: tf_String
  Description :: tf_String
  ProjectID :: tf_String
  IPPoolID :: tf_String
  IP :: tf_String
  TimeCreated :: tf_String
  TimeModified :: tf_String
  Timeouts :: timeouts_Value

text \<open>The \<^verbatim>\<open>tfsdk\<close> tags of the struct: the attribute each field is stored under.\<close>

definition floatingIpResourceModel_tfsdk :: "string list" where
  "floatingIpResourceModel_tfsdk =
     [''id'', ''name'', ''description'', ''project_id'', ''ip_pool_id'', ''ip'',
      ''time_created'', ''time_modified'', ''timeouts'']"

datatype PlanModifier = RequiresReplace | UseStateForUnknown | RequiresReplaceIfConfigured

text \<open>
  A string attribute with its \<^verbatim>\<open>Required\<close>, \<^verbatim>\<open>Optional\<close> and \<^verbatim>\<open>Computed\<close> flags and its plan
  modifiers, or the block made by \<^verbatim>\<open>timeouts.Attributes\<close> with its four options.
\<close>

datatype Attribute =
    StringAttribute (Required: bool) (Optional: bool) (Computed: bool)
      (PlanModifiers: "PlanModifier list")
  | TimeoutsAttributes bool bool bool bool

definition Schema :: "(string \<times> Attribute) list" where
  "Schema =
     [(''name'', StringAttribute True False False [RequiresReplace]),
      (''description'', StringAttribute True False False [RequiresReplace]),
      (''project_id'', StringAttribute True False False [RequiresReplace]),
      (''ip'', StringAttribute False True False [UseStateForUnknown, RequiresReplaceIfConfigured]),
      (''ip_pool_id'',
         StringAttribute False True False [UseStateForUnknown, RequiresReplaceIfConfigured]),
      (''timeouts'', TimeoutsAttributes True True True True),
      (''id'', StringAttribute False False True []),
      (''time_created'', StringAttribute False False True []),
      (''time_modified'', StringAttribute False False True [])]"

text \<open>
  The persisted state layout as section 6 of the specification words it, in the attribute
  names of the provider; the bound instance id is the remote object's \<^verbatim>\<open>instance_id\<close>.
\<close>

definition spec_persisted_state_layout :: "string list" where
  "spec_persisted_state_layout =
     [''id'', ''name'', ''description'', ''project_id'', ''ip'', ''ip_pool_id'',
      ''instance_id'', ''time_created'', ''time_modified'', ''timeouts'']"

subsection \<open>The remote client\<close>

text \<open>
  Modelled from the spec: \<^verbatim>\<open>oxide.FloatingIp\<close> is declared in the client library, not in the
  sources. Section 6 lists the object's fields: identity, name, description,
  project identity, ip, pool identity, bound-instance identity, and the two timestamps.
  The type \<open>'t\<close> stands for \<^verbatim>\<open>time.Time\<close>; both timestamps are taken as present, and an
  unbound instance as the empty string.
\<close>

record 't FloatingIp =
  FloatingIp_Description :: string
  FloatingIp_Id :: string
  FloatingIp_InstanceId :: string
  FloatingIp_Ip :: string
  FloatingIp_IpPoolId :: string
  FloatingIp_Name :: string
  FloatingIp_ProjectId :: string
  FloatingIp_TimeCreated :: 't
  FloatingIp_TimeModified :: 't

record FloatingIpCreate =
  FloatingIpCreate_Description :: string
  FloatingIpCreate_Ip :: string
  FloatingIpCreate_Name :: string
  FloatingIpCreate_Pool :: string

record FloatingIpCreateParams =
  FloatingIpCreateParams_Project :: string
  FloatingIpCreateParams_Body :: FloatingIpCreate

text \<open>
  What the operations use without defining it. The three client methods act on a remote
  world \<open>'w\<close> and return a Go error \<open>'e\<close> or a result. \<^verbatim>\<open>is404\<close> and \<^verbatim>\<open>defaultTimeout\<close> are
  helpers of the provider package defined outside the sources; \<^verbatim>\<open>Error\<close> is the error's
  message, \<^verbatim>\<open>Time_String\<close> is \<^verbatim>\<open>time.Time.String\<close>.
\<close>

record ('w, 'e, 't) provider =
  client_FloatingIpCreate ::
    "Context \<Rightarrow> FloatingIpCreateParams \<Rightarrow> 'w \<Rightarrow> ('e + 't FloatingIp) \<times> 'w"
  client_FloatingIpView :: "Context \<Rightarrow> string \<Rightarrow> 'w \<Rightarrow> ('e + 't FloatingIp) \<times> 'w"
  client_FloatingIpDelete :: "Context \<Rightarrow> string \<Rightarrow> 'w \<Rightarrow> 'e option \<times> 'w"
  is404 :: "'e \<Rightarrow> bool"
  Error :: "'e \<Rightarrow> string"
  defaultTimeout :: Duration
  ParseDuration :: "string \<Rightarrow> string + Duration"
  Time_String :: "'t \<Rightarrow> string"

text \<open>A logged call: the context and parameters sent, and the answer received.\<close>

datatype ('e, 't) api_call =
    FloatingIpCreateCall Context FloatingIpCreateParams "'e + 't FloatingIp"
  | FloatingIpViewCall Context string "'e + 't FloatingIp"
  | FloatingIpDeleteCall Context string "'e option"

record ('w, 'e, 't) remote =
  world :: 'w
  calls :: "('e, 't) api_call list"

definition FloatingIpCreate ::
  "('w, 'e, 't) provider \<Rightarrow> Context \<Rightarrow> FloatingIpCreateParams \<Rightarrow> ('w, 'e, 't) remote
    \<Rightarrow> ('e + 't FloatingIp) \<times> ('w, 'e, 't) remote" where
  "FloatingIpCreate r ctx params rs =
     (case client_FloatingIpCreate r ctx params (world rs) of
        (res, w) \<Rightarrow>
          (res, \<lparr>world = w, calls = calls rs @ [FloatingIpCreateCall ctx params res]\<rparr>))"

definition FloatingIpView ::
  "('w, 'e, 't) provider \<Rightarrow> Context \<Rightarrow> string \<Rightarrow> ('w, 'e, 't) remote
    \<Rightarrow> ('e + 't FloatingIp) \<times> ('w, 'e, 't) remote" where
  "FloatingIpView r ctx ref rs =
     (case client_FloatingIpView r ctx ref (world rs) of
        (res, w) \<Rightarrow> (res, \<lparr>world = w, calls = calls rs @ [FloatingIpViewCall ctx ref res]\<rparr>))"

definition FloatingIpDelete ::
  "('w, 'e, 't) provider \<Rightarrow> Context \<Rightarrow> string \<Rightarrow> ('w, 'e, 't) remote
    \<Rightarrow> 'e option \<times> ('w, 'e, 't) remote" where
  "FloatingIpDelete r ctx ref rs =
     (case client_FloatingIpDelete r ctx ref (world rs) of
        (res, w) \<Rightarrow> (res, \<lparr>world = w, calls = calls rs @ [FloatingIpDeleteCall ctx ref res]\<rparr>))"

subsection \<open>Requests and responses\<close>

text \<open>
  A request carries the plan or the prior state, already in the shape of the model:
  \<^verbatim>\<open>req.Plan.Get\<close> and \<^verbatim>\<open>req.State.Get\<close> decode data that conforms to the schema into the
  struct and add no diagnostic, and \<^verbatim>\<open>resp.State.Set\<close> stores the struct likewise.
  A response holds the state to persist (\<open>None\<close> once \<^verbatim>\<open>RemoveResource\<close> has run, or before
  anything was set) and the diagnostics.
\<close>

record CreateRequest =
  CreateRequest_Plan :: floatingIpResourceModel

record ReadRequest =
  ReadRequest_State :: floatingIpResourceModel

record UpdateRequest =
  UpdateRequest_Plan :: floatingIpResourceModel
  UpdateRequest_State :: floatingIpResourceModel

record DeleteRequest =
  DeleteRequest_State :: floatingIpResourceModel

record Response =
  State :: "floatingIpResourceModel option"
  Diagnostics :: "Diagnostic list"

subsection \<open>The lifecycle operations\<close>

definition Create ::
  "('w, 'e, 't) provider \<Rightarrow> Context \<Rightarrow> CreateRequest \<Rightarrow> Response \<Rightarrow> ('w, 'e, 't) remote
    \<Rightarrow> Response \<times> ('w, 'e, 't) remote" where
  "Create r ctx req resp rs =
     (let plan = CreateRequest_Plan req;
          resp = resp\<lparr>Diagnostics := Append (Diagnostics resp) []\<rparr>
      in if HasError (Diagnostics resp) then (resp, rs)
      else
        (case Timeouts_Create (ParseDuration r) (Timeouts plan) (defaultTimeout r) of
           (createTimeout, diags) \<Rightarrow>
             (let resp = resp\<lparr>Diagnostics := Append (Diagnostics resp) diags\<rparr>
              in if HasError (Diagnostics resp) then (resp, rs)
              else
                (let ctx = WithTimeout ctx createTimeout;
                     params =
                       \<lparr>FloatingIpCreateParams_Project = ValueString (ProjectID plan),
                        FloatingIpCreateParams_Body =
                          \<lparr>FloatingIpCreate_Description = ValueString (Description plan),
                           FloatingIpCreate_Ip = ValueString (IP plan),
                           FloatingIpCreate_Name = ValueString (Name plan),
                           FloatingIpCreate_Pool = ValueString (IPPoolID plan)\<rparr>\<rparr>
                 in case FloatingIpCreate r ctx params rs of
                      (Inl err, rs) \<Rightarrow>
                        (resp\<lparr>Diagnostics :=
                            AddError (Diagnostics resp) ''Error creating floatingIp''
                              (''API error: '' @ Error r err)\<rparr>, rs)
                    | (Inr floatingIp, rs) \<Rightarrow>
                        (let plan = plan\<lparr>ID := StringValue (FloatingIp_Id floatingIp)\<rparr>;
                             plan = plan\<lparr>TimeCreated :=
                               StringValue (Time_String r (FloatingIp_TimeCreated floatingIp))\<rparr>;
                             plan = plan\<lparr>TimeModified :=
                               StringValue (Time_String r (FloatingIp_TimeModified floatingIp))\<rparr>;
                             resp = resp\<lparr>State := Some plan,
                                        Diagnostics := Append (Diagnostics resp) []\<rparr>
                         in (resp, rs))))))"

definition Read ::
  "('w, 'e, 't) provider \<Rightarrow> Context \<Rightarrow> ReadRequest \<Rightarrow> Response \<Rightarrow> ('w, 'e, 't) remote
    \<Rightarrow> Response \<times> ('w, 'e, 't) remote" where
  "Read r ctx req resp rs =
     (let state = ReadRequest_State req;
          resp = resp\<lparr>Diagnostics := Append (Diagnostics resp) []\<rparr>
      in if HasError (Diagnostics resp) then (resp, rs)
      else
        (case Timeouts_Read (ParseDuration r) (Timeouts state) (defaultTimeout r) of
           (readTimeout, diags) \<Rightarrow>
             (let resp = resp\<lparr>Diagnostics := Append (Diagnostics resp) diags\<rparr>
              in if HasError (Diagnostics resp) then (resp, rs)
              else
                (let ctx = WithTimeout ctx readTimeout;
                     params = ValueString (ID state)
                 in case FloatingIpView r ctx params rs of
                      (Inl err, rs) \<Rightarrow>
                        (if is404 r err then (resp\<lparr>State := None\<rparr>, rs)
                         else
                           (resp\<lparr>Diagnostics :=
                               AddError (Diagnostics resp) ''Unable to read floatingIp:''
                                 (''API error: '' @ Error r err)\<rparr>, rs))
                    | (Inr floatingIp, rs) \<Rightarrow>
                        (let state = state\<lparr>Description :=
                               StringValue (FloatingIp_Description floatingIp)\<rparr>;
                             state = state\<lparr>ID := StringValue (FloatingIp_Id floatingIp)\<rparr>;
                             state = state\<lparr>Name := StringValue (FloatingIp_Name floatingIp)\<rparr>;
                             state = state\<lparr>IP := StringValue (FloatingIp_Ip floatingIp)\<rparr>;
                             state = state\<lparr>IPPoolID :=
                               StringValue (FloatingIp_IpPoolId floatingIp)\<rparr>;
                             state = state\<lparr>Name := StringValue (FloatingIp_Name floatingIp)\<rparr>;
                             state = state\<lparr>ProjectID :=
                               StringValue (FloatingIp_ProjectId floatingIp)\<rparr>;
                             state = state\<lparr>TimeCreated :=
                               StringValue (Time_String r (FloatingIp_TimeCreated floatingIp))\<rparr>;
                             state = state\<lparr>TimeModified :=
                               StringValue (Time_String r (FloatingIp_TimeModified floatingIp))\<rparr>;
                             resp = resp\<lparr>State := Some state,
                                        Diagnostics := Append (Diagnostics resp) []\<rparr>
                         in (resp, rs))))))"

definition Update ::
  "('w, 'e, 't) provider \<Rightarrow> Context \<Rightarrow> UpdateRequest \<Rightarrow> Response \<Rightarrow> ('w, 'e, 't) remote
    \<Rightarrow> Response \<times> ('w, 'e, 't) remote" where
  "Update r ctx req resp rs =
     (resp\<lparr>Diagnostics :=
         AddError (Diagnostics resp) ''Error updating floatingIp''
           ''the oxide API currently does not support updating floatingIps''\<rparr>, rs)"

definition Delete ::
  "('w, 'e, 't) provider \<Rightarrow> Context \<Rightarrow> DeleteRequest \<Rightarrow> Response \<Rightarrow> ('w, 'e, 't) remote
    \<Rightarrow> Response \<times> ('w, 'e, 't) remote" where
  "Delete r ctx req resp rs =
     (let state = DeleteRequest_State req;
          resp = resp\<lparr>Diagnostics := Append (Diagnostics resp) []\<rparr>
      in if HasError (Diagnostics resp) then (resp, rs)
      else
        (case Timeouts_Delete (ParseDuration r) (Timeouts state) (defaultTimeout r) of
           (deleteTimeout, diags) \<Rightarrow>
             (let resp = resp\<lparr>Diagnostics := Append (Diagnostics resp) diags\<rparr>
              in if HasError (Diagnostics resp) then (resp, rs)
              else
                (let ctx = WithTimeout ctx deleteTimeout;
                     params = ValueString (ID state)
                 in case FloatingIpDelete r ctx params rs of
                      (Some err, rs) \<Rightarrow>
                        (if \<not> is404 r err
                         then
                           (resp\<lparr>Diagnostics :=
                               AddError (Diagnostics resp) ''Unable to delete floatingIp:''
                                 (''API error: '' @ Error r err)\<rparr>, rs)
                         else (resp, rs))
                    | (None, rs) \<Rightarrow> (resp, rs)))))"

subsection \<open>A sample platform\<close>

text \<open>
  An in-memory platform to run the operations on: the world is the list of floating IPs
  that exist, an error is \<open>NotFound\<close> (HTTP 404) or \<open>Unavailable\<close> (HTTP 503), and a time is
  represented by its rendering. Creating in the project \<open>''down''\<close> fails; the parser knows
  two duration strings.
\<close>

datatype sample_error = NotFound | Unavailable

definition sample_Create ::
  "Context \<Rightarrow> FloatingIpCreateParams \<Rightarrow> string FloatingIp list
    \<Rightarrow> (sample_error + string FloatingIp) \<times> string FloatingIp list" where
  "sample_Create ctx params w =
     (if FloatingIpCreateParams_Project params = ''down'' then (Inl Unavailable, w)
      else
        (let body = FloatingIpCreateParams_Body params;
             obj = \<lparr>FloatingIp_Description = FloatingIpCreate_Description body,
                    FloatingIp_Id = ''fip-'' @ FloatingIpCreate_Name body,
                    FloatingIp_InstanceId = [],
                    FloatingIp_Ip =
                      (if FloatingIpCreate_Ip body = [] then ''192.0.2.1''
                       else FloatingIpCreate_Ip body),
                    FloatingIp_IpPoolId = ''pool-0'',
                    FloatingIp_Name = FloatingIpCreate_Name body,
                    FloatingIp_ProjectId = ''project-0'',
                    FloatingIp_TimeCreated = ''2024-01-01 00:00:00 +0000 UTC'',
                    FloatingIp_TimeModified = ''2024-01-01 00:00:00 +0000 UTC''\<rparr>
         in (Inr obj, w @ [obj])))"

definition sample_View ::
  "Context \<Rightarrow> string \<Rightarrow> string FloatingIp list
    \<Rightarrow> (sample_error + string FloatingIp) \<times> string FloatingIp list" where
  "sample_View ctx ref w =
     (case find (\<lambda>obj. FloatingIp_Id obj = ref) w of
        None \<Rightarrow> (Inl NotFound, w)
      | Some obj \<Rightarrow> (Inr obj, w))"

definition sample_Delete ::
  "Context \<Rightarrow> string \<Rightarrow> string FloatingIp list \<Rightarrow> sample_error option \<times> string FloatingIp list" where
  "sample_Delete ctx ref w =
     (case find (\<lambda>obj. FloatingIp_Id obj = ref) w of
        None \<Rightarrow> (Some NotFound, w)
      | Some obj \<Rightarrow> (None, filter (\<lambda>obj. FloatingIp_Id obj \<noteq> ref) w))"

fun sample_Error :: "sample_error \<Rightarrow> string" where
  "sample_Error NotFound = ''404 Not Found''"
| "sample_Error Unavailable = ''503 Service Unavailable''"

fun sample_is404 :: "sample_error \<Rightarrow> bool" where
  "sample_is404 NotFound = True"
| "sample_is404 Unavailable = False"

definition sample_ParseDuration :: "string \<Rightarrow> string + Duration" where
  "sample_ParseDuration s =
     (if s = ''30s'' then Inr 30000000000
      else if s = ''5m'' then Inr 300000000000
      else Inl (''time: invalid duration '' @ s))"

definition sample_provider :: "(string FloatingIp list, sample_error, string) provider" where
  "sample_provider =
     \<lparr>client_FloatingIpCreate = sample_Create,
      client_FloatingIpView = sample_View,
      client_FloatingIpDelete = sample_Delete,
      is404 = sample_is404,
      Error = sample_Error,
      defaultTimeout = 600000000000,
      ParseDuration = sample_ParseDuration,
      Time_String = (\<lambda>t. t)\<rparr>"

definition sample_model :: floatingIpResourceModel where
  "sample_model =
     \<lparr>ID = StringValue ''fip-lb-vip'',
      Name = StringValue ''lb-vip'',
      Description = StringValue ''load balancer VIP'',
      ProjectID = StringValue ''proj-1'',
      IPPoolID = StringNull,
      IP = StringNull,
      TimeCreated = StringValue ''2024-01-01 00:00:00 +0000 UTC'',
      TimeModified = StringValue ''2024-01-01 00:00:00 +0000 UTC'',
      Timeouts = [(''read'', StringValue ''30s'')]\<rparr>"

definition sample_object :: "string FloatingIp" where
  "sample_object =
     \<lparr>FloatingIp_Description = ''load balancer VIP'',
      FloatingIp_Id = ''fip-lb-vip'',
      FloatingIp_InstanceId = ''instance-7'',
      FloatingIp_Ip = ''192.0.2.1'',
      FloatingIp_IpPoolId = ''pool-0'',
      FloatingIp_Name = ''lb-vip'',
      FloatingIp_ProjectId = ''project-0'',
      FloatingIp_TimeCreated = ''2024-01-01 00:00:00 +0000 UTC'',
      FloatingIp_TimeModified = ''2024-03-05 12:00:00 +0000 UTC''\<rparr>"

text \<open>
  The response as the framework hands it to an operation: the state to start from (the prior
  state, or nothing for a create) and no diagnostics yet. Two remote states with an empty
  log: one where \<open>sample_object\<close> exists and one where nothing does.
\<close>

definition new_Response :: "floatingIpResourceModel option \<Rightarrow> Response" where
  "new_Response s = \<lparr>State = s, Diagnostics = []\<rparr>"

definition sample_remote :: "(string FloatingIp list, sample_error, string) remote" where
  "sample_remote = \<lparr>world = [sample_object], calls = []\<rparr>"

definition empty_remote :: "(string FloatingIp list, sample_error, string) remote" where
  "empty_remote = \<lparr>world = [], calls = []\<rparr>"

text \<open>
  A plan as Create receives it: the computed attributes are still unknown, no address and
  no pool are configured. \<open>sample_created\<close> is the object the sample platform makes of it.
\<close>

definition sample_plan :: floatingIpResourceModel where
  "sample_plan =
     \<lparr>ID = StringUnknown,
      Name = StringValue ''lb-vip'',
      Description = StringValue ''load balancer VIP'',
      ProjectID = StringValue ''proj-1'',
      IPPoolID = StringNull,
      IP = StringNull,
      TimeCreated = StringUnknown,
      TimeModified = StringUnknown,
      Timeouts = []\<rparr>"

definition sample_params :: FloatingIpCreateParams where
  "sample_params =
     \<lparr>FloatingIpCreateParams_Project = ''proj-1'',
      FloatingIpCreateParams_Body =
        \<lparr>FloatingIpCreate_Description = ''load balancer VIP'',
         FloatingIpCreate_Ip = [],
         FloatingIpCreate_Name = ''lb-vip'',
         FloatingIpCreate_Pool = []\<rparr>\<rparr>"

definition sample_created :: "string FloatingIp" where
  "sample_created =
     \<lparr>FloatingIp_Description = ''load balancer VIP'',
      FloatingIp_Id = ''fip-lb-vip'',
      FloatingIp_InstanceId = [],
      FloatingIp_Ip = ''192.0.2.1'',
      FloatingIp_IpPoolId = ''pool-0'',
      FloatingIp_Name = ''lb-vip'',
      FloatingIp_ProjectId = ''project-0'',
      FloatingIp_TimeCreated = ''2024-01-01 00:00:00 +0000 UTC'',
      FloatingIp_TimeModified = ''2024-01-01 00:00:00 +0000 UTC''\<rparr>"

text \<open>
  A prior state without an identity, once with no timeouts configured and once with
  duration strings the sample parser rejects.
\<close>

definition sample_unidentified :: floatingIpResourceModel where
  "sample_unidentified = sample_plan\<lparr>ID := StringNull\<rparr>"

definition sample_unparseable :: floatingIpResourceModel where
  "sample_unparseable =
     sample_plan\<lparr>ID := StringNull,
                 Timeouts := [(''read'', StringValue ''soon''),
                              (''update'', StringValue ''soon''),
                              (''delete'', StringValue ''soon'')]\<rparr>"

text \<open>The timeout each operation resolves from its own request.\<close>

abbreviation create_timeout ::
  "('w, 'e, 't) provider \<Rightarrow> CreateRequest \<Rightarrow> Duration \<times> Diagnostic list" where
  "create_timeout r req \<equiv>
     Timeouts_Create (ParseDuration r) (Timeouts (CreateRequest_Plan req)) (defaultTimeout r)"

abbreviation read_timeout ::
  "('w, 'e, 't) provider \<Rightarrow> ReadRequest \<Rightarrow> Duration \<times> Diagnostic list" where
  "read_timeout r req \<equiv>
     Timeouts_Read (ParseDuration r) (Timeouts (ReadRequest_State req)) (defaultTimeout r)"

abbreviation delete_timeout ::
  "('w, 'e, 't) provider \<Rightarrow> DeleteRequest \<Rightarrow> Duration \<times> Diagnostic list" where
  "delete_timeout r req \<equiv>
     Timeouts_Delete (ParseDuration r) (Timeouts (DeleteRequest_State req)) (defaultTimeout r)"

section \<open>Properties\<close>

lemmas op_defs =
  Read_def Create_def Delete_def Update_def
  Timeouts_Read_def Timeouts_Create_def Timeouts_Delete_def Timeouts_Update_def
  FloatingIpView_def FloatingIpCreate_def FloatingIpDelete_def AddError_def Let_def

lemmas sample_defs =
  sample_provider_def sample_View_def sample_Delete_def sample_Create_def
  sample_ParseDuration_def sample_model_def sample_object_def
  new_Response_def sample_remote_def empty_remote_def getTimeout_def
  sample_plan_def sample_params_def sample_created_def
  sample_unidentified_def sample_unparseable_def

subsection \<open>Diagnostics and the resolver\<close>

text \<open>
  A list without an error does not contain any error diagnostic, so adding an error to it
  appends it; and a list that ends in an error has one.
\<close>

lemma no_error_notin: "\<not> HasError ds \<Longrightarrow> ErrorDiagnostic s d \<notin> set ds"
  by (induction ds rule: HasError.induct) auto

lemma HasError_snoc: "HasError (ds @ [ErrorDiagnostic s d])"
  by (induction ds rule: HasError.induct) auto

lemma AddError_no_error:
  "\<not> HasError ds \<Longrightarrow> AddError ds s d = ds @ [ErrorDiagnostic s d]"
  by (simp add: AddError_def no_error_notin)

text \<open>
  The resolver returns no diagnostic or exactly one error. Appended to diagnostics without
  an error, its diagnostics are added at the end, and the result has an error exactly when
  the resolver reported one. An absent entry resolves to the default.
\<close>

lemma getTimeout_cases:
  "getTimeout parse t n d = (x, ds) \<Longrightarrow> ds = [] \<or> (\<exists>s m. ds = [ErrorDiagnostic s m])"
  by (auto simp: getTimeout_def split: option.splits tf_String.splits sum.splits)

lemma Append_getTimeout:
  assumes "\<not> HasError ds0" and "getTimeout parse t n d = (x, ds)"
  shows "Append ds0 ds = ds0 @ ds" and "HasError (Append ds0 ds) \<longleftrightarrow> ds \<noteq> []"
  using assms(1) getTimeout_cases [OF assms(2)]
  by (auto simp: HasError_snoc dest: no_error_notin)

lemma getTimeout_default:
  "map_of t n = None \<Longrightarrow> getTimeout parse t n d = (d, [])"
  by (simp add: getTimeout_def)

subsection \<open>Update\<close>

text \<open>
  C1. For every request (plan and prior state), Update leaves the response's state as it
  was and makes no remote call: the remote world and the log of calls are unchanged. To a
  response that held no diagnostic it adds exactly one, the error with the summary
  "Error updating floatingIp".
\<close>

theorem Update_always_rejects:
  assumes "Update r ctx req resp rs = (resp', rs')"
  shows "State resp' = State resp
     \<and> world rs' = world rs \<and> calls rs' = calls rs
     \<and> (Diagnostics resp = [] \<longrightarrow>
          Diagnostics resp' =
            [ErrorDiagnostic ''Error updating floatingIp''
               ''the oxide API currently does not support updating floatingIps'']
          \<and> map Summary (Diagnostics resp') = [''Error updating floatingIp'']
          \<and> length (Diagnostics resp') = 1)"
  using assms by (auto simp: Update_def AddError_def)

theorem Update_always_rejects_witness:
  "Diagnostics (new_Response (Some sample_model)) = []
   \<and> Update sample_provider Background
         \<lparr>UpdateRequest_Plan = sample_model\<lparr>Description := StringValue ''changed''\<rparr>,
          UpdateRequest_State = sample_model\<rparr>
         (new_Response (Some sample_model)) sample_remote
       = (\<lparr>State = Some sample_model,
           Diagnostics =
             [ErrorDiagnostic ''Error updating floatingIp''
                ''the oxide API currently does not support updating floatingIps'']\<rparr>,
          sample_remote)"
proof -
  let ?req = "\<lparr>UpdateRequest_Plan = sample_model\<lparr>Description := StringValue ''changed''\<rparr>,
               UpdateRequest_State = sample_model\<rparr>"
  let ?run = "Update sample_provider Background ?req (new_Response (Some sample_model))
                sample_remote"
  have fresh: "Diagnostics (new_Response (Some sample_model)) = []"
    by (simp add: new_Response_def)
  have run: "?run = (fst ?run, snd ?run)"
    by simp
  from Update_always_rejects [OF run] fresh
  have "State (fst ?run) = State (new_Response (Some sample_model))
      \<and> world (snd ?run) = world sample_remote \<and> calls (snd ?run) = calls sample_remote
      \<and> Diagnostics (fst ?run) =
            [ErrorDiagnostic ''Error updating floatingIp''
               ''the oxide API currently does not support updating floatingIps'']"
    by simp
  then have "fst ?run = \<lparr>State = Some sample_model,
           Diagnostics =
             [ErrorDiagnostic ''Error updating floatingIp''
                ''the oxide API currently does not support updating floatingIps'']\<rparr>
      \<and> snd ?run = sample_remote"
    by (simp add: new_Response_def sample_remote_def)
  with fresh show ?thesis
    by (simp add: prod_eq_iff)
qed

subsection \<open>Read\<close>

text \<open>
  Read with a response that holds no error: if the read timeout resolves, exactly one View
  call is made, for the state's identity, under the invocation's context bounded by the
  resolved duration; if it does not, Read returns the response with the resolver's error
  added and the remote state untouched.
\<close>

lemma Read_timeout:
  assumes "\<not> HasError (Diagnostics resp)"
  shows "(snd (read_timeout r req) = []
          \<longrightarrow> (\<exists>a. calls (snd (Read r ctx req resp rs))
                = calls rs @ [FloatingIpViewCall
                    (WithTimeout ctx (fst (read_timeout r req)))
                    (ValueString (ID (ReadRequest_State req))) a]))
       \<and> (snd (read_timeout r req) \<noteq> []
          \<longrightarrow> Read r ctx req resp rs
              = (resp\<lparr>Diagnostics := Diagnostics resp @ snd (read_timeout r req)\<rparr>, rs))"
proof (cases "read_timeout r req")
  case (Pair t ds)
  note a = Append_getTimeout [OF assms Pair [unfolded Timeouts_Read_def]]
  show ?thesis
    using assms Pair a
    by (auto simp: Read_def FloatingIpView_def Let_def split: prod.splits sum.splits)
qed

text \<open>
  C2. If the View call that Read makes is answered with an error that \<^verbatim>\<open>is404\<close> accepts,
  Read removes the resource from the state and adds no diagnostic. This holds for every
  prior state, so in particular for one that carries an identity.
\<close>

theorem Read_not_found_removes:
  assumes "Read r ctx req resp rs = (resp', rs')"
    and "calls rs' = calls rs @ [FloatingIpViewCall c ref (Inl err)]"
    and "is404 r err"
  shows "State resp' = None \<and> Diagnostics resp' = Diagnostics resp"
proof (cases "read_timeout r req")
  case (Pair t ds)
  show ?thesis
  proof (cases "HasError (Diagnostics resp)")
    case True
    with assms show ?thesis
      by (simp add: Read_def)
  next
    case False
    note a = Append_getTimeout [OF False Pair [unfolded Timeouts_Read_def]]
    show ?thesis
      using assms False Pair a
      by (auto simp: Read_def FloatingIpView_def Let_def
          split: prod.splits sum.splits if_splits)
  qed
qed

theorem Read_not_found_removes_witness:
  "Read sample_provider Background \<lparr>ReadRequest_State = sample_model\<rparr>
       (new_Response (Some sample_model)) empty_remote
     = (\<lparr>State = None, Diagnostics = []\<rparr>,
        \<lparr>world = [],
         calls = [FloatingIpViewCall (WithTimeout Background 30000000000) ''fip-lb-vip''
                    (Inl NotFound)]\<rparr>)
   \<and> ID sample_model = StringValue ''fip-lb-vip''
   \<and> is404 sample_provider NotFound"
proof -
  let ?run = "Read sample_provider Background \<lparr>ReadRequest_State = sample_model\<rparr>
       (new_Response (Some sample_model)) empty_remote"
  have run: "?run = (fst ?run, snd ?run)"
    by simp
  have nf: "is404 sample_provider NotFound"
    by (simp add: sample_provider_def)
  have log: "calls (snd ?run)
     = calls empty_remote
       @ [FloatingIpViewCall (WithTimeout Background 30000000000) ''fip-lb-vip'' (Inl NotFound)]"
    by (simp add: op_defs sample_defs)
  have rest: "world (snd ?run) = []"
    by (simp add: op_defs sample_defs)
  from Read_not_found_removes [OF run log nf]
  have "State (fst ?run) = None
     \<and> Diagnostics (fst ?run) = Diagnostics (new_Response (Some sample_model))"
    by simp
  with log rest nf show ?thesis
    by (simp add: prod_eq_iff empty_remote_def sample_model_def new_Response_def)
qed

text \<open>
  C10. When the View call that Read makes returns an object, the state that Read stores has
  the timeout configuration of the prior state.
\<close>

theorem Read_keeps_timeouts:
  assumes "Read r ctx req resp rs = (resp', rs')"
    and "calls rs' = calls rs @ [FloatingIpViewCall c ref (Inr obj)]"
  shows "\<exists>s. State resp' = Some s \<and> Timeouts s = Timeouts (ReadRequest_State req)"
proof (cases "read_timeout r req")
  case (Pair t ds)
  show ?thesis
  proof (cases "HasError (Diagnostics resp)")
    case True
    with assms show ?thesis
      by (simp add: Read_def)
  next
    case False
    note a = Append_getTimeout [OF False Pair [unfolded Timeouts_Read_def]]
    show ?thesis
      using assms False Pair a
      by (auto simp: Read_def FloatingIpView_def Let_def
          split: prod.splits sum.splits if_splits)
  qed
qed

theorem Read_keeps_timeouts_witness:
  "calls (snd (Read sample_provider Background \<lparr>ReadRequest_State = sample_model\<rparr>
       (new_Response (Some sample_model)) sample_remote))
     = [FloatingIpViewCall (WithTimeout Background 30000000000) ''fip-lb-vip''
          (Inr sample_object)]
   \<and> map_option Timeouts (State (fst (Read sample_provider Background
       \<lparr>ReadRequest_State = sample_model\<rparr> (new_Response (Some sample_model)) sample_remote)))
     = Some [(''read'', StringValue ''30s'')]"
proof -
  let ?run = "Read sample_provider Background \<lparr>ReadRequest_State = sample_model\<rparr>
       (new_Response (Some sample_model)) sample_remote"
  have run: "?run = (fst ?run, snd ?run)"
    by simp
  have log: "calls (snd ?run)
     = calls sample_remote
       @ [FloatingIpViewCall (WithTimeout Background 30000000000) ''fip-lb-vip''
            (Inr sample_object)]"
    by (simp add: op_defs sample_defs)
  from Read_keeps_timeouts [OF run log]
  obtain s where "State (fst ?run) = Some s"
    and "Timeouts s = Timeouts (ReadRequest_State \<lparr>ReadRequest_State = sample_model\<rparr>)"
    by blast
  then have "map_option Timeouts (State (fst ?run)) = Some [(''read'', StringValue ''30s'')]"
    by (simp add: sample_model_def)
  with log show ?thesis
    by (simp add: sample_remote_def)
qed

text \<open>
  C4, as the code has it. When the View call that Read makes returns an object, the state
  that Read stores takes identity, name, description, project id, pool id, address and both
  timestamps from the object, so none of these is left from the prior state; only the
  timeout configuration is the prior state's. No diagnostic is added. The state model has
  no field for the bound-instance identity, and Read does not store it.
\<close>

theorem Read_reflects_remote:
  assumes "Read r ctx req resp rs = (resp', rs')"
    and "calls rs' = calls rs @ [FloatingIpViewCall c ref (Inr obj)]"
  shows "State resp' =
           Some \<lparr>ID = StringValue (FloatingIp_Id obj),
                 Name = StringValue (FloatingIp_Name obj),
                 Description = StringValue (FloatingIp_Description obj),
                 ProjectID = StringValue (FloatingIp_ProjectId obj),
                 IPPoolID = StringValue (FloatingIp_IpPoolId obj),
                 IP = StringValue (FloatingIp_Ip obj),
                 TimeCreated = StringValue (Time_String r (FloatingIp_TimeCreated obj)),
                 TimeModified = StringValue (Time_String r (FloatingIp_TimeModified obj)),
                 Timeouts = Timeouts (ReadRequest_State req)\<rparr>
     \<and> Diagnostics resp' = Diagnostics resp"
proof (cases "read_timeout r req")
  case (Pair t ds)
  show ?thesis
  proof (cases "HasError (Diagnostics resp)")
    case True
    with assms show ?thesis
      by (simp add: Read_def)
  next
    case False
    note a = Append_getTimeout [OF False Pair [unfolded Timeouts_Read_def]]
    show ?thesis
      using assms False Pair a
      by (auto simp: Read_def FloatingIpView_def Let_def
          split: prod.splits sum.splits if_splits)
  qed
qed

theorem Read_reflects_remote_witness:
  "calls (snd (Read sample_provider Background \<lparr>ReadRequest_State = sample_model\<rparr>
       (new_Response (Some sample_model)) sample_remote))
     = [FloatingIpViewCall (WithTimeout Background 30000000000) ''fip-lb-vip''
          (Inr sample_object)]
   \<and> State (fst (Read sample_provider Background \<lparr>ReadRequest_State = sample_model\<rparr>
       (new_Response (Some sample_model)) sample_remote))
     = Some \<lparr>ID = StringValue ''fip-lb-vip'',
             Name = StringValue ''lb-vip'',
             Description = StringValue ''load balancer VIP'',
             ProjectID = StringValue ''project-0'',
             IPPoolID = StringValue ''pool-0'',
             IP = StringValue ''192.0.2.1'',
             TimeCreated = StringValue ''2024-01-01 00:00:00 +0000 UTC'',
             TimeModified = StringValue ''2024-03-05 12:00:00 +0000 UTC'',
             Timeouts = [(''read'', StringValue ''30s'')]\<rparr>"
proof -
  let ?run = "Read sample_provider Background \<lparr>ReadRequest_State = sample_model\<rparr>
       (new_Response (Some sample_model)) sample_remote"
  have run: "?run = (fst ?run, snd ?run)"
    by simp
  have log: "calls (snd ?run)
     = calls sample_remote
       @ [FloatingIpViewCall (WithTimeout Background 30000000000) ''fip-lb-vip''
            (Inr sample_object)]"
    by (simp add: op_defs sample_defs)
  from Read_reflects_remote [OF run log] log show ?thesis
    by (simp add: sample_object_def sample_model_def sample_provider_def sample_remote_def)
qed

text \<open>
  The claim that the stored state equals the object in every listed field, the
  bound-instance identity included, fails: two objects that differ only in the instance
  they are bound to leave Read with the same response, so no part of the stored state
  tells the instance.
\<close>

theorem Read_drops_instance_counterexample:
  "fst (Read sample_provider Background \<lparr>ReadRequest_State = sample_model\<rparr>
       (new_Response (Some sample_model)) \<lparr>world = [sample_object], calls = []\<rparr>)
   = fst (Read sample_provider Background \<lparr>ReadRequest_State = sample_model\<rparr>
       (new_Response (Some sample_model))
       \<lparr>world = [sample_object\<lparr>FloatingIp_InstanceId := ''instance-8''\<rparr>], calls = []\<rparr>)
   \<and> calls (snd (Read sample_provider Background \<lparr>ReadRequest_State = sample_model\<rparr>
       (new_Response (Some sample_model)) \<lparr>world = [sample_object], calls = []\<rparr>))
     = [FloatingIpViewCall (WithTimeout Background 30000000000) ''fip-lb-vip''
          (Inr sample_object)]
   \<and> calls (snd (Read sample_provider Background \<lparr>ReadRequest_State = sample_model\<rparr>
       (new_Response (Some sample_model))
       \<lparr>world = [sample_object\<lparr>FloatingIp_InstanceId := ''instance-8''\<rparr>], calls = []\<rparr>))
     = [FloatingIpViewCall (WithTimeout Background 30000000000) ''fip-lb-vip''
          (Inr (sample_object\<lparr>FloatingIp_InstanceId := ''instance-8''\<rparr>))]
   \<and> FloatingIp_InstanceId sample_object = ''instance-7''"
  by (simp add: op_defs sample_defs)

subsection \<open>Create\<close>

text \<open>
  Create with a response that holds no error: if the create timeout resolves, exactly one
  remote Create call is made, under the invocation's context bounded by the resolved
  duration; if it does not, Create returns the response with the resolver's error added and
  the remote state untouched.
\<close>

lemma Create_timeout:
  assumes "\<not> HasError (Diagnostics resp)"
  shows "(snd (create_timeout r req) = []
          \<longrightarrow> (\<exists>p a. calls (snd (Create r ctx req resp rs))
                = calls rs @ [FloatingIpCreateCall
                    (WithTimeout ctx (fst (create_timeout r req))) p a]))
       \<and> (snd (create_timeout r req) \<noteq> []
          \<longrightarrow> Create r ctx req resp rs
              = (resp\<lparr>Diagnostics := Diagnostics resp @ snd (create_timeout r req)\<rparr>, rs))"
proof (cases "create_timeout r req")
  case (Pair t ds)
  note a = Append_getTimeout [OF assms Pair [unfolded Timeouts_Create_def]]
  show ?thesis
    using assms Pair a
    by (auto simp: Create_def FloatingIpCreate_def Let_def split: prod.splits sum.splits)
qed

text \<open>
  C6. If the remote Create call that Create makes fails, the response's state is left as it
  was (nothing is stored and no identity is assigned) and one diagnostic is added: the
  error "Error creating floatingIp" whose detail carries the remote error's message.
\<close>

theorem Create_failure_atomic:
  assumes "Create r ctx req resp rs = (resp', rs')"
    and "calls rs' = calls rs @ [FloatingIpCreateCall c p (Inl err)]"
  shows "State resp' = State resp
     \<and> Diagnostics resp' =
         Diagnostics resp
         @ [ErrorDiagnostic ''Error creating floatingIp'' (''API error: '' @ Error r err)]"
proof (cases "create_timeout r req")
  case (Pair t ds)
  show ?thesis
  proof (cases "HasError (Diagnostics resp)")
    case True
    with assms show ?thesis
      by (simp add: Create_def)
  next
    case False
    note a = Append_getTimeout [OF False Pair [unfolded Timeouts_Create_def]]
    show ?thesis
      using assms False Pair a
      by (auto simp: Create_def FloatingIpCreate_def Let_def AddError_no_error
          split: prod.splits sum.splits if_splits)
  qed
qed

theorem Create_failure_atomic_witness:
  "calls (snd (Create sample_provider Background
       \<lparr>CreateRequest_Plan = sample_plan\<lparr>ProjectID := StringValue ''down''\<rparr>\<rparr>
       (new_Response None) empty_remote))
     = [FloatingIpCreateCall (WithTimeout Background 600000000000)
          (sample_params\<lparr>FloatingIpCreateParams_Project := ''down''\<rparr>) (Inl Unavailable)]
   \<and> fst (Create sample_provider Background
       \<lparr>CreateRequest_Plan = sample_plan\<lparr>ProjectID := StringValue ''down''\<rparr>\<rparr>
       (new_Response None) empty_remote)
     = \<lparr>State = None,
        Diagnostics = [ErrorDiagnostic ''Error creating floatingIp''
                         ''API error: 503 Service Unavailable'']\<rparr>"
proof -
  let ?run = "Create sample_provider Background
       \<lparr>CreateRequest_Plan = sample_plan\<lparr>ProjectID := StringValue ''down''\<rparr>\<rparr>
       (new_Response None) empty_remote"
  have run: "?run = (fst ?run, snd ?run)"
    by simp
  have log: "calls (snd ?run)
     = calls empty_remote
       @ [FloatingIpCreateCall (WithTimeout Background 600000000000)
            (sample_params\<lparr>FloatingIpCreateParams_Project := ''down''\<rparr>) (Inl Unavailable)]"
    by (simp add: op_defs sample_defs)
  from Create_failure_atomic [OF run log]
  have "State (fst ?run) = State (new_Response None)
     \<and> Diagnostics (fst ?run)
       = Diagnostics (new_Response None)
         @ [ErrorDiagnostic ''Error creating floatingIp''
              (''API error: '' @ Error sample_provider Unavailable)]"
    by simp
  with log show ?thesis
    by (simp add: empty_remote_def new_Response_def sample_provider_def)
qed

text \<open>
  C5, as the code has it. When the remote Create call returns an object, Create stores the
  plan with three fields overwritten from the object: the identity and the two timestamps.
  Name, description, project, address, pool and timeouts stay as the plan supplied them; the
  object's project, pool and instance identities are not merged.
\<close>

theorem Create_merges_computed:
  assumes "Create r ctx req resp rs = (resp', rs')"
    and "calls rs' = calls rs @ [FloatingIpCreateCall c p (Inr obj)]"
  shows "\<exists>s. State resp' = Some s
       \<and> ID s = StringValue (FloatingIp_Id obj)
       \<and> TimeCreated s = StringValue (Time_String r (FloatingIp_TimeCreated obj))
       \<and> TimeModified s = StringValue (Time_String r (FloatingIp_TimeModified obj))
       \<and> Name s = Name (CreateRequest_Plan req)
       \<and> Description s = Description (CreateRequest_Plan req)
       \<and> ProjectID s = ProjectID (CreateRequest_Plan req)
       \<and> IP s = IP (CreateRequest_Plan req)
       \<and> IPPoolID s = IPPoolID (CreateRequest_Plan req)
       \<and> Timeouts s = Timeouts (CreateRequest_Plan req)"
proof (cases "create_timeout r req")
  case (Pair t ds)
  show ?thesis
  proof (cases "HasError (Diagnostics resp)")
    case True
    with assms show ?thesis
      by (simp add: Create_def)
  next
    case False
    note a = Append_getTimeout [OF False Pair [unfolded Timeouts_Create_def]]
    show ?thesis
      using assms False Pair a
      by (auto simp: Create_def FloatingIpCreate_def Let_def AddError_no_error
          split: prod.splits sum.splits if_splits)
  qed
qed

theorem Create_merges_computed_witness:
  "calls (snd (Create sample_provider Background \<lparr>CreateRequest_Plan = sample_plan\<rparr>
       (new_Response None) empty_remote))
     = [FloatingIpCreateCall (WithTimeout Background 600000000000) sample_params
          (Inr sample_created)]
   \<and> State (fst (Create sample_provider Background \<lparr>CreateRequest_Plan = sample_plan\<rparr>
       (new_Response None) empty_remote))
     = Some (sample_plan\<lparr>ID := StringValue ''fip-lb-vip'',
               TimeCreated := StringValue ''2024-01-01 00:00:00 +0000 UTC'',
               TimeModified := StringValue ''2024-01-01 00:00:00 +0000 UTC''\<rparr>)"
proof -
  let ?run = "Create sample_provider Background \<lparr>CreateRequest_Plan = sample_plan\<rparr>
       (new_Response None) empty_remote"
  have run: "?run = (fst ?run, snd ?run)"
    by simp
  have log: "calls (snd ?run)
     = calls empty_remote
       @ [FloatingIpCreateCall (WithTimeout Background 600000000000) sample_params
            (Inr sample_created)]"
    by (simp add: op_defs sample_defs)
  from Create_merges_computed [OF run log]
  obtain s where s: "State (fst ?run) = Some s"
    "ID s = StringValue (FloatingIp_Id sample_created)"
    "TimeCreated s
       = StringValue (Time_String sample_provider (FloatingIp_TimeCreated sample_created))"
    "TimeModified s
       = StringValue (Time_String sample_provider (FloatingIp_TimeModified sample_created))"
    "Name s = Name sample_plan" "Description s = Description sample_plan"
    "ProjectID s = ProjectID sample_plan" "IP s = IP sample_plan"
    "IPPoolID s = IPPoolID sample_plan" "Timeouts s = Timeouts sample_plan"
    by auto
  then have "s = sample_plan\<lparr>ID := StringValue ''fip-lb-vip'',
               TimeCreated := StringValue ''2024-01-01 00:00:00 +0000 UTC'',
               TimeModified := StringValue ''2024-01-01 00:00:00 +0000 UTC''\<rparr>"
    by (simp add: sample_created_def sample_provider_def sample_plan_def)
  with s(1) log show ?thesis
    by (simp add: empty_remote_def)
qed

text \<open>
  The claim that the owning-project and pool identities of the returned object are merged
  fails on the sample platform: the object is in project \<open>''project-0''\<close> and pool
  \<open>''pool-0''\<close>, the stored state keeps the declared \<open>''proj-1''\<close> and a null pool.
\<close>

theorem Create_keeps_declared_project_counterexample:
  "calls (snd (Create sample_provider Background \<lparr>CreateRequest_Plan = sample_plan\<rparr>
       (new_Response None) empty_remote))
     = [FloatingIpCreateCall (WithTimeout Background 600000000000) sample_params
          (Inr sample_created)]
   \<and> map_option ProjectID (State (fst (Create sample_provider Background
       \<lparr>CreateRequest_Plan = sample_plan\<rparr> (new_Response None) empty_remote)))
     = Some (StringValue ''proj-1'')
   \<and> map_option ProjectID (State (fst (Create sample_provider Background
       \<lparr>CreateRequest_Plan = sample_plan\<rparr> (new_Response None) empty_remote)))
     \<noteq> Some (StringValue (FloatingIp_ProjectId sample_created))
   \<and> map_option IPPoolID (State (fst (Create sample_provider Background
       \<lparr>CreateRequest_Plan = sample_plan\<rparr> (new_Response None) empty_remote)))
     = Some StringNull
   \<and> map_option IPPoolID (State (fst (Create sample_provider Background
       \<lparr>CreateRequest_Plan = sample_plan\<rparr> (new_Response None) empty_remote)))
     \<noteq> Some (StringValue (FloatingIp_IpPoolId sample_created))"
  by (simp add: op_defs sample_defs)

subsection \<open>Delete\<close>

text \<open>
  Delete with a response that holds no error: if the delete timeout resolves, exactly one
  remote Delete call is made, for the state's identity, under the invocation's context
  bounded by the resolved duration; if it does not, Delete returns the response with the
  resolver's error added and the remote state untouched.
\<close>

lemma Delete_timeout:
  assumes "\<not> HasError (Diagnostics resp)"
  shows "(snd (delete_timeout r req) = []
          \<longrightarrow> (\<exists>a. calls (snd (Delete r ctx req resp rs))
                = calls rs @ [FloatingIpDeleteCall
                    (WithTimeout ctx (fst (delete_timeout r req)))
                    (ValueString (ID (DeleteRequest_State req))) a]))
       \<and> (snd (delete_timeout r req) \<noteq> []
          \<longrightarrow> Delete r ctx req resp rs
              = (resp\<lparr>Diagnostics := Diagnostics resp @ snd (delete_timeout r req)\<rparr>, rs))"
proof (cases "delete_timeout r req")
  case (Pair t ds)
  note a = Append_getTimeout [OF assms Pair [unfolded Timeouts_Delete_def]]
  show ?thesis
    using assms Pair a
    by (auto simp: Delete_def FloatingIpDelete_def Let_def split: prod.splits option.splits)
qed

text \<open>
  What one Delete does to the diagnostics, by the answer to the call it made: none is added
  when the answer is success or an error that \<^verbatim>\<open>is404\<close> accepts. And a Delete that added no
  diagnostic to a response without an error had its timeout resolved.
\<close>

lemma Delete_answer:
  assumes "Delete r ctx req resp rs = (resp', rs')"
    and "calls rs' = calls rs @ [FloatingIpDeleteCall c ref a]"
    and "a = None \<or> (\<exists>err. a = Some err \<and> is404 r err)"
  shows "Diagnostics resp' = Diagnostics resp \<and> State resp' = State resp"
proof (cases "delete_timeout r req")
  case (Pair t ds)
  show ?thesis
  proof (cases "HasError (Diagnostics resp)")
    case True
    with assms show ?thesis
      by (simp add: Delete_def)
  next
    case False
    note b = Append_getTimeout [OF False Pair [unfolded Timeouts_Delete_def]]
    show ?thesis
      using assms False Pair b
      by (auto simp: Delete_def FloatingIpDelete_def Let_def
          split: prod.splits option.splits if_splits)
  qed
qed

lemma Delete_early:
  assumes "HasError (Diagnostics resp)"
  shows "Delete r ctx req resp rs = (resp, rs)"
  using assms by (simp add: Delete_def)

lemma Delete_quiet_resolved:
  assumes "\<not> HasError (Diagnostics resp)"
    and "Delete r ctx req resp rs = (resp', rs')"
    and "Diagnostics resp' = Diagnostics resp"
  shows "snd (delete_timeout r req) = []"
proof (rule ccontr)
  assume "snd (delete_timeout r req) \<noteq> []"
  with Delete_timeout [OF assms(1), of r req ctx rs] assms(2)
  have "resp' = resp\<lparr>Diagnostics := Diagnostics resp @ snd (delete_timeout r req)\<rparr>"
    by simp
  with assms(3) \<open>snd (delete_timeout r req) \<noteq> []\<close> show False
    by simp
qed

text \<open>
  C3. Delete treats a not-found answer as success: if the remote Delete call that Delete
  makes is answered with an error that \<^verbatim>\<open>is404\<close> accepts, no diagnostic is added. So for
  two Deletes of one state in sequence: if the first added no diagnostic and the remote
  answers the second call with success or not-found, as a platform does for an object that
  is gone, the second adds no diagnostic either. Both leave the response's state as it was.
\<close>

theorem Delete_idempotent:
  assumes "Delete r ctx req resp rs = (resp1, rs1)"
    and "Delete r ctx' req resp rs1 = (resp2, rs2)"
  shows "(\<forall>c ref err. calls rs1 = calls rs @ [FloatingIpDeleteCall c ref (Some err)] \<and> is404 r err
            \<longrightarrow> Diagnostics resp1 = Diagnostics resp \<and> State resp1 = State resp)
     \<and> (Diagnostics resp1 = Diagnostics resp
          \<and> (\<forall>c ref err. calls rs2 = calls rs1 @ [FloatingIpDeleteCall c ref (Some err)]
                \<longrightarrow> is404 r err)
        \<longrightarrow> Diagnostics resp2 = Diagnostics resp \<and> State resp2 = State resp)"
proof (intro conjI allI impI)
  fix c ref err
  assume "calls rs1 = calls rs @ [FloatingIpDeleteCall c ref (Some err)] \<and> is404 r err"
  with Delete_answer [OF assms(1), of c ref "Some err"]
  show "Diagnostics resp1 = Diagnostics resp" and "State resp1 = State resp"
    by simp_all
next
  assume h: "Diagnostics resp1 = Diagnostics resp
      \<and> (\<forall>c ref err. calls rs2 = calls rs1 @ [FloatingIpDeleteCall c ref (Some err)]
            \<longrightarrow> is404 r err)"
  have "Diagnostics resp2 = Diagnostics resp \<and> State resp2 = State resp"
  proof (cases "HasError (Diagnostics resp)")
    case True
    from Delete_early [OF True, of r ctx' req rs1] assms(2) show ?thesis
      by simp
  next
    case False
    from Delete_quiet_resolved [OF False assms(1)] h
    have "snd (delete_timeout r req) = []"
      by simp
    with Delete_timeout [OF False, of r req ctx' rs1] assms(2)
    obtain a where log: "calls rs2 = calls rs1 @ [FloatingIpDeleteCall
        (WithTimeout ctx' (fst (delete_timeout r req)))
        (ValueString (ID (DeleteRequest_State req))) a]"
      by auto
    with h have "a = None \<or> (\<exists>err. a = Some err \<and> is404 r err)"
      by (cases a) auto
    from Delete_answer [OF assms(2) log this] show ?thesis .
  qed
  then show "Diagnostics resp2 = Diagnostics resp" and "State resp2 = State resp"
    by simp_all
qed

theorem Delete_idempotent_witness:
  "Delete sample_provider Background \<lparr>DeleteRequest_State = sample_model\<rparr>
       (new_Response (Some sample_model)) sample_remote
     = (new_Response (Some sample_model),
        \<lparr>world = [],
         calls = [FloatingIpDeleteCall (WithTimeout Background 600000000000) ''fip-lb-vip''
                    None]\<rparr>)
   \<and> Delete sample_provider Background \<lparr>DeleteRequest_State = sample_model\<rparr>
       (new_Response (Some sample_model))
       \<lparr>world = [],
        calls = [FloatingIpDeleteCall (WithTimeout Background 600000000000) ''fip-lb-vip''
                   None]\<rparr>
     = (new_Response (Some sample_model),
        \<lparr>world = [],
         calls = [FloatingIpDeleteCall (WithTimeout Background 600000000000) ''fip-lb-vip''
                    None,
                  FloatingIpDeleteCall (WithTimeout Background 600000000000) ''fip-lb-vip''
                    (Some NotFound)]\<rparr>)
   \<and> is404 sample_provider NotFound
   \<and> Diagnostics (new_Response (Some sample_model)) = []"
proof -
  let ?req = "\<lparr>DeleteRequest_State = sample_model\<rparr>"
  let ?resp = "new_Response (Some sample_model)"
  let ?c = "WithTimeout Background 600000000000"
  let ?rs1 = "\<lparr>world = [] :: string FloatingIp list,
        calls = [FloatingIpDeleteCall ?c ''fip-lb-vip'' (None :: sample_error option)
                   :: (sample_error, string) api_call]\<rparr>"
  let ?rs2 = "\<lparr>world = [] :: string FloatingIp list,
        calls = [FloatingIpDeleteCall ?c ''fip-lb-vip'' None,
                 FloatingIpDeleteCall ?c ''fip-lb-vip'' (Some NotFound)
                   :: (sample_error, string) api_call]\<rparr>"
  let ?rs3 = "\<lparr>world = [] :: string FloatingIp list,
        calls = [FloatingIpDeleteCall ?c ''fip-lb-vip'' None,
                 FloatingIpDeleteCall ?c ''fip-lb-vip'' (Some NotFound),
                 FloatingIpDeleteCall ?c ''fip-lb-vip'' (Some NotFound)
                   :: (sample_error, string) api_call]\<rparr>"
  have fresh: "Diagnostics ?resp = []"
    by (simp add: new_Response_def)
  have first: "Delete sample_provider Background ?req ?resp sample_remote = (?resp, ?rs1)"
    by (simp add: op_defs sample_defs)
  have second: "Delete sample_provider Background ?req ?resp ?rs1 = (?resp, ?rs2)"
    by (simp add: op_defs sample_defs)
  have third: "Delete sample_provider Background ?req ?resp ?rs2 = (?resp, ?rs3)"
    by (simp add: op_defs sample_defs)
  have nf: "is404 sample_provider NotFound"
    by (simp add: sample_provider_def)
  have answer: "\<forall>c ref err. calls ?rs2 = calls ?rs1 @ [FloatingIpDeleteCall c ref (Some err)]
      \<longrightarrow> is404 sample_provider err"
    using nf by simp
  have gone: "calls ?rs2 = calls ?rs1 @ [FloatingIpDeleteCall ?c ''fip-lb-vip'' (Some NotFound)]"
    by simp
  from Delete_idempotent [OF first second] answer
  have twice: "Diagnostics ?resp = Diagnostics ?resp \<and> State ?resp = State ?resp"
    by blast
  from Delete_idempotent [OF second third] gone nf
  have once: "Diagnostics ?resp = Diagnostics ?resp \<and> State ?resp = State ?resp"
    by blast
  from twice once first second nf fresh show ?thesis
    by simp
qed

subsection \<open>Timeouts\<close>

text \<open>
  C7, as the code has it. Create, Read and Delete each resolve their own timeout, from the
  entry of their own name in the timeouts of their own request, and fall back to the
  default when that entry is absent; this happens before the remote call, which runs under
  the invocation's own context bounded by that duration, and a failed resolution prevents
  the call. Update resolves no timeout: its result does not depend on the timeouts of its
  request, and it makes no remote call.
\<close>

theorem lifecycle_timeouts:
  assumes "\<not> HasError (Diagnostics resp)"
  shows "(snd (create_timeout r creq) = []
          \<longrightarrow> (\<exists>p a. calls (snd (Create r ctx creq resp rs))
                = calls rs @ [FloatingIpCreateCall
                    (WithTimeout ctx (fst (create_timeout r creq))) p a]))
       \<and> (snd (create_timeout r creq) \<noteq> []
          \<longrightarrow> Create r ctx creq resp rs
              = (resp\<lparr>Diagnostics := Diagnostics resp @ snd (create_timeout r creq)\<rparr>, rs))
       \<and> (map_of (Timeouts (CreateRequest_Plan creq)) ''create'' = None
          \<longrightarrow> create_timeout r creq = (defaultTimeout r, []))
       \<and> (snd (read_timeout r rreq) = []
          \<longrightarrow> (\<exists>ref a. calls (snd (Read r ctx rreq resp rs))
                = calls rs @ [FloatingIpViewCall
                    (WithTimeout ctx (fst (read_timeout r rreq))) ref a]))
       \<and> (snd (read_timeout r rreq) \<noteq> []
          \<longrightarrow> Read r ctx rreq resp rs
              = (resp\<lparr>Diagnostics := Diagnostics resp @ snd (read_timeout r rreq)\<rparr>, rs))
       \<and> (map_of (Timeouts (ReadRequest_State rreq)) ''read'' = None
          \<longrightarrow> read_timeout r rreq = (defaultTimeout r, []))
       \<and> (snd (delete_timeout r dreq) = []
          \<longrightarrow> (\<exists>ref a. calls (snd (Delete r ctx dreq resp rs))
                = calls rs @ [FloatingIpDeleteCall
                    (WithTimeout ctx (fst (delete_timeout r dreq))) ref a]))
       \<and> (snd (delete_timeout r dreq) \<noteq> []
          \<longrightarrow> Delete r ctx dreq resp rs
              = (resp\<lparr>Diagnostics := Diagnostics resp @ snd (delete_timeout r dreq)\<rparr>, rs))
       \<and> (map_of (Timeouts (DeleteRequest_State dreq)) ''delete'' = None
          \<longrightarrow> delete_timeout r dreq = (defaultTimeout r, []))
       \<and> Update r ctx \<lparr>UpdateRequest_Plan = plan\<lparr>Timeouts := ts\<rparr>,
                        UpdateRequest_State = state\<lparr>Timeouts := ts'\<rparr>\<rparr> resp rs
           = Update r ctx \<lparr>UpdateRequest_Plan = plan, UpdateRequest_State = state\<rparr> resp rs
       \<and> calls (snd (Update r ctx \<lparr>UpdateRequest_Plan = plan, UpdateRequest_State = state\<rparr>
            resp rs)) = calls rs"
proof -
  note c = Create_timeout [OF assms, of r creq ctx rs]
  note rd = Read_timeout [OF assms, of r rreq ctx rs]
  note d = Delete_timeout [OF assms, of r dreq ctx rs]
  have dflt: "map_of (Timeouts (CreateRequest_Plan creq)) ''create'' = None
      \<longrightarrow> create_timeout r creq = (defaultTimeout r, [])"
    "map_of (Timeouts (ReadRequest_State rreq)) ''read'' = None
      \<longrightarrow> read_timeout r rreq = (defaultTimeout r, [])"
    "map_of (Timeouts (DeleteRequest_State dreq)) ''delete'' = None
      \<longrightarrow> delete_timeout r dreq = (defaultTimeout r, [])"
    by (simp_all add: Timeouts_Create_def Timeouts_Read_def Timeouts_Delete_def
        getTimeout_default)
  have u: "Update r ctx \<lparr>UpdateRequest_Plan = plan\<lparr>Timeouts := ts\<rparr>,
                        UpdateRequest_State = state\<lparr>Timeouts := ts'\<rparr>\<rparr> resp rs
           = Update r ctx \<lparr>UpdateRequest_Plan = plan, UpdateRequest_State = state\<rparr> resp rs"
    "calls (snd (Update r ctx \<lparr>UpdateRequest_Plan = plan, UpdateRequest_State = state\<rparr>
            resp rs)) = calls rs"
    by (simp_all add: Update_def)
  from c rd d dflt u show ?thesis
    by blast
qed

theorem lifecycle_timeouts_witness:
  "create_timeout sample_provider \<lparr>CreateRequest_Plan = sample_plan\<rparr> = (600000000000, [])
   \<and> map_of (Timeouts sample_plan) ''create'' = None
   \<and> calls (snd (Create sample_provider Background \<lparr>CreateRequest_Plan = sample_plan\<rparr>
        (new_Response (Some sample_model)) sample_remote))
     = [FloatingIpCreateCall (WithTimeout Background 600000000000) sample_params
          (Inr sample_created)]
   \<and> read_timeout sample_provider \<lparr>ReadRequest_State = sample_model\<rparr> = (30000000000, [])
   \<and> calls (snd (Read sample_provider Background \<lparr>ReadRequest_State = sample_model\<rparr>
        (new_Response (Some sample_model)) sample_remote))
     = [FloatingIpViewCall (WithTimeout Background 30000000000) ''fip-lb-vip''
          (Inr sample_object)]
   \<and> delete_timeout sample_provider \<lparr>DeleteRequest_State = sample_unparseable\<rparr>
     = (600000000000,
        [ErrorDiagnostic ''Timeout Cannot Be Parsed''
           ''timeout for delete cannot be parsed, time: invalid duration soon''])
   \<and> Delete sample_provider Background \<lparr>DeleteRequest_State = sample_unparseable\<rparr>
        (new_Response (Some sample_model)) sample_remote
     = (\<lparr>State = Some sample_model,
         Diagnostics = [ErrorDiagnostic ''Timeout Cannot Be Parsed''
            ''timeout for delete cannot be parsed, time: invalid duration soon'']\<rparr>,
        sample_remote)"
proof -
  let ?creq = "\<lparr>CreateRequest_Plan = sample_plan\<rparr>"
  let ?rreq = "\<lparr>ReadRequest_State = sample_model\<rparr>"
  let ?dreq = "\<lparr>DeleteRequest_State = sample_unparseable\<rparr>"
  let ?resp = "new_Response (Some sample_model)"
  have fresh: "\<not> HasError (Diagnostics ?resp)"
    by (simp add: new_Response_def)
  have ct: "create_timeout sample_provider ?creq = (600000000000, [])"
    and absent: "map_of (Timeouts sample_plan) ''create'' = None"
    and rt: "read_timeout sample_provider ?rreq = (30000000000, [])"
    and dt: "delete_timeout sample_provider ?dreq
      = (600000000000,
         [ErrorDiagnostic ''Timeout Cannot Be Parsed''
            ''timeout for delete cannot be parsed, time: invalid duration soon''])"
    by (simp_all add: op_defs sample_defs)
  note all = lifecycle_timeouts [OF fresh, of sample_provider ?creq Background sample_remote
      ?rreq ?dreq]
  have cpa: "calls (snd (Create sample_provider Background ?creq ?resp sample_remote))
      = [FloatingIpCreateCall (WithTimeout Background 600000000000) sample_params
           (Inr sample_created)]"
    by (simp add: op_defs sample_defs)
  have rpa: "calls (snd (Read sample_provider Background ?rreq ?resp sample_remote))
      = [FloatingIpViewCall (WithTimeout Background 30000000000) ''fip-lb-vip''
           (Inr sample_object)]"
    by (simp add: op_defs sample_defs)
  from all dt
  have "Delete sample_provider Background ?dreq ?resp sample_remote
      = (?resp\<lparr>Diagnostics := Diagnostics ?resp
            @ snd (delete_timeout sample_provider ?dreq)\<rparr>, sample_remote)"
    by simp
  with ct absent rt dt cpa rpa show ?thesis
    by (simp add: new_Response_def)
qed

text \<open>
  The claim that Update, too, resolves its timeout fails: for a request whose update
  timeout does not parse, the resolver reports an error, yet Update returns only its own
  error and is not stopped by a validation diagnostic.
\<close>

theorem Update_resolves_no_timeout_counterexample:
  "Timeouts_Update (ParseDuration sample_provider) (Timeouts sample_unparseable)
       (defaultTimeout sample_provider)
     = (600000000000,
        [ErrorDiagnostic ''Timeout Cannot Be Parsed''
           ''timeout for update cannot be parsed, time: invalid duration soon''])
   \<and> Update sample_provider Background
       \<lparr>UpdateRequest_Plan = sample_unparseable, UpdateRequest_State = sample_unparseable\<rparr>
       (new_Response (Some sample_unparseable)) sample_remote
     = (\<lparr>State = Some sample_unparseable,
         Diagnostics = [ErrorDiagnostic ''Error updating floatingIp''
                          ''the oxide API currently does not support updating floatingIps'']\<rparr>,
        sample_remote)"
  by (simp add: op_defs sample_defs)

subsection \<open>No local check of the identity\<close>

text \<open>
  C9, as the code has it. Read and Delete do not look at the identity before calling the
  platform: for a prior state whose ID is null or the empty string, and a response that
  holds no error, the remote View (Delete) call is made, with the empty string as
  reference, whenever the read (delete) timeout resolves without error.
\<close>

theorem no_local_identity_check:
  assumes "\<not> HasError (Diagnostics resp)"
    and "ID (ReadRequest_State rreq) = StringNull \<or> ID (ReadRequest_State rreq) = StringValue []"
    and "ID (DeleteRequest_State dreq) = StringNull
           \<or> ID (DeleteRequest_State dreq) = StringValue []"
  shows "(snd (read_timeout r rreq) = []
          \<longrightarrow> (\<exists>t a. calls (snd (Read r ctx rreq resp rs))
                = calls rs @ [FloatingIpViewCall (WithTimeout ctx t) [] a]))
       \<and> (snd (delete_timeout r dreq) = []
          \<longrightarrow> (\<exists>t a. calls (snd (Delete r ctx dreq resp rs))
                = calls rs @ [FloatingIpDeleteCall (WithTimeout ctx t) [] a]))"
proof -
  from assms(2) have rref: "ValueString (ID (ReadRequest_State rreq)) = []"
    by auto
  from assms(3) have dref: "ValueString (ID (DeleteRequest_State dreq)) = []"
    by auto
  from Read_timeout [OF assms(1), of r rreq ctx rs] Delete_timeout [OF assms(1), of r dreq ctx rs]
  show ?thesis
    unfolding rref dref by blast
qed

theorem no_local_identity_check_witness:
  "ID sample_unidentified = StringNull
   \<and> snd (read_timeout sample_provider \<lparr>ReadRequest_State = sample_unidentified\<rparr>) = []
   \<and> calls (snd (Read sample_provider Background \<lparr>ReadRequest_State = sample_unidentified\<rparr>
        (new_Response (Some sample_unidentified)) sample_remote))
     = [FloatingIpViewCall (WithTimeout Background 600000000000) [] (Inl NotFound)]
   \<and> snd (delete_timeout sample_provider \<lparr>DeleteRequest_State = sample_unidentified\<rparr>) = []
   \<and> calls (snd (Delete sample_provider Background
        \<lparr>DeleteRequest_State = sample_unidentified\<rparr>
        (new_Response (Some sample_unidentified)) sample_remote))
     = [FloatingIpDeleteCall (WithTimeout Background 600000000000) [] (Some NotFound)]"
proof -
  let ?rreq = "\<lparr>ReadRequest_State = sample_unidentified\<rparr>"
  let ?dreq = "\<lparr>DeleteRequest_State = sample_unidentified\<rparr>"
  let ?resp = "new_Response (Some sample_unidentified)"
  have fresh: "\<not> HasError (Diagnostics ?resp)"
    by (simp add: new_Response_def)
  have null: "ID sample_unidentified = StringNull"
    by (simp add: sample_unidentified_def)
  have rt: "snd (read_timeout sample_provider ?rreq) = []"
    and dt: "snd (delete_timeout sample_provider ?dreq) = []"
    by (simp_all add: op_defs sample_defs)
  have rlog: "calls (snd (Read sample_provider Background ?rreq ?resp sample_remote))
      = [FloatingIpViewCall (WithTimeout Background 600000000000) [] (Inl NotFound)]"
    by (simp add: op_defs sample_defs)
  have dlog: "calls (snd (Delete sample_provider Background ?dreq ?resp sample_remote))
      = [FloatingIpDeleteCall (WithTimeout Background 600000000000) [] (Some NotFound)]"
    by (simp add: op_defs sample_defs)
  from no_local_identity_check [OF fresh, of ?rreq ?dreq sample_provider Background
      sample_remote] null rt dt
  have "(\<exists>t a. calls (snd (Read sample_provider Background ?rreq ?resp sample_remote))
           = calls sample_remote @ [FloatingIpViewCall (WithTimeout Background t) [] a])
      \<and> (\<exists>t a. calls (snd (Delete sample_provider Background ?dreq ?resp sample_remote))
           = calls sample_remote @ [FloatingIpDeleteCall (WithTimeout Background t) [] a])"
    by simp
  with null rt dt rlog dlog show ?thesis
    by simp
qed

text \<open>
  The claim as worded, for every state without an identity, fails where the timeout does
  not resolve: the state below has a null ID and unparseable timeouts, and neither Read nor
  Delete makes a remote call.
\<close>

theorem no_call_on_bad_timeout_counterexample:
  "ID sample_unparseable = StringNull
   \<and> calls (snd (Read sample_provider Background \<lparr>ReadRequest_State = sample_unparseable\<rparr>
        (new_Response (Some sample_unparseable)) sample_remote)) = []
   \<and> calls (snd (Delete sample_provider Background \<lparr>DeleteRequest_State = sample_unparseable\<rparr>
        (new_Response (Some sample_unparseable)) sample_remote)) = []"
  by (simp add: op_defs sample_defs)

subsection \<open>The persisted state layout\<close>

text \<open>
  C8, as the code has it. The state is stored under exactly nine attributes: id, name,
  description, project_id, ip, ip_pool_id, time_created, time_modified and timeouts. These
  are the fields the specification lists, less the bound instance id, for which the struct
  has no field; and they are exactly the attributes the schema declares.
\<close>

theorem state_layout:
  "set floatingIpResourceModel_tfsdk = set spec_persisted_state_layout - {''instance_id''}
   \<and> distinct floatingIpResourceModel_tfsdk
   \<and> length floatingIpResourceModel_tfsdk = 9
   \<and> set (map fst Schema) = set floatingIpResourceModel_tfsdk
   \<and> distinct (map fst Schema)"
  unfolding floatingIpResourceModel_tfsdk_def spec_persisted_state_layout_def Schema_def
  by code_simp

text \<open>
  The layout the specification words has a bound instance id; the struct does not, so the
  two layouts differ.
\<close>

theorem state_layout_counterexample:
  "''instance_id'' \<in> set spec_persisted_state_layout
   \<and> ''instance_id'' \<notin> set floatingIpResourceModel_tfsdk
   \<and> set floatingIpResourceModel_tfsdk \<noteq> set spec_persisted_state_layout"
  unfolding floatingIpResourceModel_tfsdk_def spec_persisted_state_layout_def
  by code_simp

end
